theory Spec2Isabelle
  imports Main "HOL-Library.Word"
begin

section \<open>Values, errors and observable events\<close>

text \<open>
  The verifier of \<^verbatim>\<open>src/core/verifyResponse.ts\<close> is typed over strings, but TypeScript
  types are erased: at run time a field can be missing, \<^verbatim>\<open>undefined\<close> or \<^verbatim>\<open>null\<close>, and so
  can the response and the secret key. A string is a list of 8-bit characters (the
  JavaScript strings whose code units are below 256).
\<close>

type_synonym byte = "8 word"

datatype jsval = Undefined | Null | Str string

text \<open>The \<^verbatim>\<open>response\<close> argument: \<^verbatim>\<open>undefined\<close>, \<^verbatim>\<open>null\<close>, or an object that maps
  property names to values.\<close>

datatype fonepay_response = RUndefined | RNull | RObject "string \<rightharpoonup> jsval"

text \<open>
  What the code throws: \<^verbatim>\<open>new Error(message)\<close> of the source itself, the \<^verbatim>\<open>TypeError\<close> of
  \<^verbatim>\<open>Buffer.from\<close> on a value that is not a string, and the \<^verbatim>\<open>RangeError\<close> of
  \<^verbatim>\<open>crypto.timingSafeEqual\<close> on buffers of different byte lengths.
\<close>

datatype error =
    Error string
  | ERR_INVALID_ARG_TYPE
  | ERR_CRYPTO_TIMING_SAFE_EQUAL_LENGTH

text \<open>
  What a run does besides returning: \<^verbatim>\<open>console.info\<close> with its message,
  \<^verbatim>\<open>console.error\<close> with the caught error, and a call of the keyed-hash helper with its
  data and key.
\<close>

datatype event =
    Console_info string
  | Console_error error
  | Hmac_call string string

fun hmac_calls :: "event list \<Rightarrow> (string \<times> string) list" where
  "hmac_calls [] = []"
| "hmac_calls (Hmac_call d k # es) = (d, k) # hmac_calls es"
| "hmac_calls (_ # es) = hmac_calls es"

text \<open>JavaScript truthiness, as \<^verbatim>\<open>!x\<close> tests it.\<close>

fun truthy :: "jsval \<Rightarrow> bool" where
  "truthy Undefined = False"
| "truthy Null = False"
| "truthy (Str s) = (s \<noteq> [])"

text \<open>\<^verbatim>\<open>response.RC\<close>, \<^verbatim>\<open>response[key]\<close>: a property that is absent reads as
  \<^verbatim>\<open>undefined\<close>.\<close>

definition property :: "(string \<rightharpoonup> jsval) \<Rightarrow> string \<Rightarrow> jsval" where
  "property r k = (case r k of None \<Rightarrow> Undefined | Some v \<Rightarrow> v)"

text \<open>A value inside a template literal.\<close>

fun to_string :: "jsval \<Rightarrow> string" where
  "to_string Undefined = ''undefined''"
| "to_string Null = ''null''"
| "to_string (Str s) = s"

text \<open>\<^verbatim>\<open>Array.prototype.join\<close>: \<^verbatim>\<open>undefined\<close> and \<^verbatim>\<open>null\<close> elements give the empty
  string.\<close>

fun join_element :: "jsval \<Rightarrow> string" where
  "join_element Undefined = []"
| "join_element Null = []"
| "join_element (Str s) = s"

fun join :: "string \<Rightarrow> jsval list \<Rightarrow> string" where
  "join sep [] = []"
| "join sep [x] = join_element x"
| "join sep (x # y # ys) = join_element x @ sep @ join sep (y # ys)"

section \<open>Hex strings and buffers\<close>

text \<open>The value of a hex digit, in either case; \<open>None\<close> for any other character.\<close>

definition unhex :: "char \<Rightarrow> nat option" where
  "unhex c =
     (let n = (of_char c :: nat) in
      if 48 \<le> n \<and> n \<le> 57 then Some (n - 48)
      else if 97 \<le> n \<and> n \<le> 102 then Some (n - 87)
      else if 65 \<le> n \<and> n \<le> 70 then Some (n - 55)
      else None)"

text \<open>
  Decoding of \<^verbatim>\<open>Buffer.from(s, "hex")\<close>: two characters give one byte; decoding stops at
  the first pair that has a character which is no hex digit, and a single last character
  is dropped. It never fails.
\<close>

fun hex_decode :: "string \<Rightarrow> byte list" where
  "hex_decode (a # b # rest) =
     (case (unhex a, unhex b) of
        (Some x, Some y) \<Rightarrow> of_nat (x * 16 + y) # hex_decode rest
      | _ \<Rightarrow> [])"
| "hex_decode _ = []"

definition Buffer_from_hex :: "jsval \<Rightarrow> error + byte list" where
  "Buffer_from_hex v = (case v of Str s \<Rightarrow> Inr (hex_decode s) | _ \<Rightarrow> Inl ERR_INVALID_ARG_TYPE)"

definition timingSafeEqual :: "byte list \<Rightarrow> byte list \<Rightarrow> error + bool" where
  "timingSafeEqual a b =
     (if length a \<noteq> length b then Inl ERR_CRYPTO_TIMING_SAFE_EQUAL_LENGTH else Inr (a = b))"

text \<open>Lower-case hex digits, as \<^verbatim>\<open>digest("hex")\<close> writes them.\<close>

definition hex_digit :: "nat \<Rightarrow> char" where
  "hex_digit n = (if n < 10 then char_of (48 + n) else char_of (87 + n))"

fun hex_encode :: "byte list \<Rightarrow> string" where
  "hex_encode [] = []"
| "hex_encode (b # bs) = hex_digit (unat b div 16) # hex_digit (unat b mod 16) # hex_encode bs"

section \<open>The parts of the repository outside the verifier's file\<close>

text \<open>
  Modelled from the spec: \<^verbatim>\<open>RESPONSE_CODE.SUCCESSFUL\<close> of \<^verbatim>\<open>src/types/index\<close> is missing.
  The spec calls it a fixed string constant of the gateway's protocol, "a literal such as
  \<^verbatim>\<open>"successful"\<close>", and the README documents \<^verbatim>\<open>RC\<close> as "successful" for successful
  payments.
\<close>

definition RESPONSE_CODE_SUCCESSFUL :: string where
  "RESPONSE_CODE_SUCCESSFUL = ''successful''"

text \<open>
  The helper \<^verbatim>\<open>generateHmacSha512(data, secretKey)\<close> of \<^verbatim>\<open>src/utils/index\<close> is missing
  too. The verifier takes it as a parameter: a function that, given the data and the key,
  throws or returns a value. What a property needs of the helper is a hypothesis of that
  property.
\<close>

type_synonym hmac_helper = "string \<Rightarrow> string \<Rightarrow> error + jsval"

text \<open>
  Modelled from the spec: the missing helper \<^verbatim>\<open>generateHmacSha512\<close> "computes a
  SHA-512-based HMAC over the canonical message using \<^verbatim>\<open>secretKey\<close> as the key" and
  "produces the digest as a hex string". The HMAC-SHA512 primitive of the cryptography
  library is the parameter \<open>hmac\<close>, from key and message to the digest's bytes. This
  helper is the one the examples run with.
\<close>

definition generateHmacSha512 :: "(string \<Rightarrow> string \<Rightarrow> byte list) \<Rightarrow> hmac_helper" where
  "generateHmacSha512 hmac data secretKey = Inr (Str (hex_encode (hmac secretKey data)))"

section \<open>verifyResponse\<close>

definition order :: "string list" where
  "order = [''PRN'', ''PID'', ''PS'', ''RC'', ''UID'', ''BC'', ''INI'', ''P_AMT'', ''R_AMT'']"

text \<open>Lines 68 to 70: the values of the nine fields, in this order, joined by commas.\<close>

definition concatenatedValues :: "(string \<rightharpoonup> jsval) \<Rightarrow> string" where
  "concatenatedValues response = join '','' (map (\<lambda>key. property response key) order)"

text \<open>Lines 77 to 80: both digests become buffers, which are then compared.\<close>

definition compare_digests :: "jsval \<Rightarrow> jsval \<Rightarrow> error + bool" where
  "compare_digests calculatedHash dv =
     (case Buffer_from_hex calculatedHash of
        Inl e \<Rightarrow> Inl e
      | Inr calculatedDV \<Rightarrow>
          (case Buffer_from_hex dv of
             Inl e \<Rightarrow> Inl e
           | Inr fonepayDV \<Rightarrow> timingSafeEqual calculatedDV fonepayDV))"

text \<open>
  The body of the \<^verbatim>\<open>try\<close> block, lines 36 to 80. \<^verbatim>\<open>!response || !secretKey\<close> holds when
  the response is \<^verbatim>\<open>null\<close> or \<^verbatim>\<open>undefined\<close> and when the key is \<^verbatim>\<open>null\<close>, \<^verbatim>\<open>undefined\<close> or
  the empty string. The result is the value returned or the error thrown, with the events
  up to that point.
\<close>

fun verifyResponse_try ::
  "hmac_helper \<Rightarrow> fonepay_response \<Rightarrow> jsval \<Rightarrow> (error + bool) \<times> event list" where
  "verifyResponse_try gen (RObject response) (Str secretKey) =
     (if secretKey = [] then (Inl (Error ''Response and secret key are required''), [])
      else if property response ''RC'' \<noteq> Str RESPONSE_CODE_SUCCESSFUL then
        (Inr False,
         [Console_info (''Payment verification failed: Response code was '' @
            to_string (property response ''RC''))])
      else
        let missingFields = filter (\<lambda>field. response field = None) order in
        if length missingFields > 0 then
          (Inl (Error (''Missing required fields in response: '' @
             join '', '' (map Str missingFields))), [])
        else
          let message = concatenatedValues response in
          (case gen message secretKey of
             Inl e \<Rightarrow> (Inl e, [Hmac_call message secretKey])
           | Inr calculatedHash \<Rightarrow>
               if \<not> truthy calculatedHash then
                 (Inl (Error ''Failed to generate hash for response verification''),
                  [Hmac_call message secretKey])
               else
                 (compare_digests calculatedHash (property response ''DV''),
                  [Hmac_call message secretKey])))"
| "verifyResponse_try gen _ _ = (Inl (Error ''Response and secret key are required''), [])"

text \<open>
  The whole function: the \<^verbatim>\<open>catch\<close> block of lines 81 to 86 logs the error and returns
  \<^verbatim>\<open>false\<close>. The type still allows an error to reach the caller (\<open>Inl\<close>), so that "never
  throws" is a theorem and not a convention.
\<close>

definition verifyResponse ::
  "hmac_helper \<Rightarrow> fonepay_response \<Rightarrow> jsval \<Rightarrow> (error + bool) \<times> event list" where
  "verifyResponse gen response secretKey =
     (case verifyResponse_try gen response secretKey of
        (Inl e, events) \<Rightarrow> (Inr False, events @ [Console_error e])
      | (Inr b, events) \<Rightarrow> (Inr b, events))"

section \<open>Notions the properties are stated with\<close>


text \<open>Changing the case of ASCII letters, character by character.\<close>

definition to_upper :: "char \<Rightarrow> char" where
  "to_upper c =
     (let n = (of_char c :: nat) in if 97 \<le> n \<and> n \<le> 122 then char_of (n - 32) else c)"

definition to_lower :: "char \<Rightarrow> char" where
  "to_lower c =
     (let n = (of_char c :: nat) in if 65 \<le> n \<and> n \<le> 90 then char_of (n + 32) else c)"

definition case_variant :: "string \<Rightarrow> string \<Rightarrow> bool" where
  "case_variant s t = list_all2 (\<lambda>c d. d = c \<or> d = to_upper c \<or> d = to_lower c) s t"

subsection \<open>The example of the specification\<close>

text \<open>
  The nine fields of the end-to-end example, the key \<^verbatim>\<open>"s3cr3t"\<close>, and a keyed hash that
  has the value of HMAC-SHA512 at this key and message (computed with a reference
  implementation) and 64 zero bytes elsewhere.
\<close>

definition example_fields :: "string \<rightharpoonup> jsval" where
  "example_fields = map_of
     [(''PRN'', Str ''ORDER1''), (''PID'', Str ''M001''), (''PS'', Str ''success''),
      (''RC'', Str ''successful''), (''UID'', Str ''T123''), (''BC'', Str ''B01''),
      (''INI'', Str ''C''), (''P_AMT'', Str ''100.00''), (''R_AMT'', Str ''0.00'')]"

definition example_message :: string where
  "example_message = ''ORDER1,M001,success,successful,T123,B01,C,100.00,0.00''"

definition example_hmac :: "string \<Rightarrow> string \<Rightarrow> byte list" where
  "example_hmac key data =
     (if key = ''s3cr3t'' \<and> data = example_message then
        [160, 203, 121, 34, 105, 101, 87, 98, 199, 59, 172, 214, 42, 187, 124, 165,
         230, 116, 86, 180, 94, 120, 1, 33, 36, 188, 34, 58, 89, 119, 239, 88,
         245, 247, 232, 30, 231, 214, 164, 219, 65, 181, 101, 17, 20, 187, 66, 21,
         148, 142, 132, 234, 146, 78, 200, 97, 164, 92, 95, 221, 44, 74, 125, 81]
      else replicate 64 0)"

definition example_DV :: string where
  "example_DV =
     ''a0cb792269655762c73bacd62abb7ca5e67456b45e78012124bc223a5977ef58f5f7e81ee7d6a4db41b5651114bb4215948e84ea924ec861a45c5fdd2c4a7d51''"

text \<open>The same digest written with upper-case letters.\<close>

definition example_DV_upper :: string where
  "example_DV_upper =
     ''A0CB792269655762C73BACD62ABB7CA5E67456B45E78012124BC223A5977EF58F5F7E81EE7D6A4DB41B5651114BB4215948E84EA924EC861A45C5FDD2C4A7D51''"

section \<open>Hex encoding and decoding\<close>

lemma unhex_hex_digit: "n < 16 \<Longrightarrow> unhex (hex_digit n) = Some n"
  by (auto simp: unhex_def hex_digit_def Let_def)

lemma unat_byte_div16: "unat (b :: byte) div 16 < 16"
proof -
  have "unat b < 2 ^ LENGTH(8)" by (rule unsigned_less)
  then show ?thesis by simp
qed

lemma hex_decode_encode: "hex_decode (hex_encode bs) = bs"
  by (induction bs) (simp_all add: unhex_hex_digit unat_byte_div16)

lemma hex_encode_eq_Nil: "hex_encode bs = [] \<longleftrightarrow> bs = []"
  by (cases bs) simp_all

lemma unhex_to_upper: "unhex (to_upper c) = unhex c"
  by (auto simp: unhex_def to_upper_def Let_def)

lemma unhex_to_lower: "unhex (to_lower c) = unhex c"
  by (auto simp: unhex_def to_lower_def Let_def)

lemma hex_decode_case_variant: "case_variant s t \<Longrightarrow> hex_decode t = hex_decode s"
proof (induction s arbitrary: t rule: hex_decode.induct)
  case (1 a b rest)
  from "1.prems" obtain a' b' rest' where t: "t = a' # b' # rest'"
    and a: "a' = a \<or> a' = to_upper a \<or> a' = to_lower a"
    and b: "b' = b \<or> b' = to_upper b \<or> b' = to_lower b"
    and rest: "case_variant rest rest'"
    by (auto simp: case_variant_def list_all2_Cons1)
  from a have ua: "unhex a' = unhex a" by (auto simp: unhex_to_upper unhex_to_lower)
  from b have ub: "unhex b' = unhex b" by (auto simp: unhex_to_upper unhex_to_lower)
  show ?case
    using "1.IH" rest by (auto simp: t ua ub split: option.splits)
qed (auto simp: case_variant_def list_all2_Cons1)


section \<open>How a run of the verifier unfolds\<close>

lemma present_no_missingFields:
  "set order \<subseteq> dom r \<Longrightarrow> filter (\<lambda>field. r field = None) order = []"
  by (auto simp: filter_empty_conv)

lemma verifyResponse_falsy_key:
  "\<not> truthy secretKey \<Longrightarrow>
   verifyResponse gen response secretKey =
     (Inr False, [Console_error (Error ''Response and secret key are required'')])"
  by (cases response; cases secretKey) (simp_all add: verifyResponse_def)

lemma verifyResponse_no_response:
  "response = RNull \<or> response = RUndefined \<Longrightarrow>
   verifyResponse gen response secretKey =
     (Inr False, [Console_error (Error ''Response and secret key are required'')])"
  by (auto simp: verifyResponse_def)

lemma verifyResponse_not_successful:
  "property r ''RC'' \<noteq> Str RESPONSE_CODE_SUCCESSFUL \<Longrightarrow>
   fst (verifyResponse gen (RObject r) secretKey) = Inr False \<and>
   hmac_calls (snd (verifyResponse gen (RObject r) secretKey)) = []"
  by (cases secretKey) (simp_all add: verifyResponse_def)

lemma verifyResponse_not_successful_info:
  "property r ''RC'' \<noteq> Str RESPONSE_CODE_SUCCESSFUL \<Longrightarrow> secretKey \<noteq> [] \<Longrightarrow>
   snd (verifyResponse gen (RObject r) (Str secretKey)) =
     [Console_info (''Payment verification failed: Response code was '' @
        to_string (property r ''RC''))]"
  by (simp add: verifyResponse_def)

lemma verifyResponse_missing:
  "filter (\<lambda>field. r field = None) order \<noteq> [] \<Longrightarrow>
   fst (verifyResponse gen (RObject r) secretKey) = Inr False"
  by (cases secretKey) (simp_all add: verifyResponse_def Let_def)

text \<open>Past the status gate and the completeness check, the helper is called once and its
  outcome decides how the body ends.\<close>

lemma verifyResponse_complete:
  assumes "secretKey \<noteq> []" "property r ''RC'' = Str RESPONSE_CODE_SUCCESSFUL"
    and "filter (\<lambda>field. r field = None) order = []"
  shows "verifyResponse_try gen (RObject r) (Str secretKey) =
    (case gen (concatenatedValues r) secretKey of
       Inl e \<Rightarrow> Inl e
     | Inr calculatedHash \<Rightarrow>
         if \<not> truthy calculatedHash
         then Inl (Error ''Failed to generate hash for response verification'')
         else compare_digests calculatedHash (property r ''DV''),
     [Hmac_call (concatenatedValues r) secretKey])"
  using assms by (simp add: Let_def split: sum.splits)

text \<open>When the helper returns the hex of a digest that is not empty, the outcome is decided
  by the \<^verbatim>\<open>DV\<close> property alone.\<close>

lemma verifyResponse_digest:
  assumes "secretKey \<noteq> []" "property r ''RC'' = Str RESPONSE_CODE_SUCCESSFUL"
    and "filter (\<lambda>field. r field = None) order = []"
    and "gen (concatenatedValues r) secretKey = Inr (Str (hex_encode digest))"
    and "digest \<noteq> []"
  shows "verifyResponse gen (RObject r) (Str secretKey) =
    (case property r ''DV'' of
       Str dv \<Rightarrow>
         if length (hex_decode dv) \<noteq> length digest
         then (Inr False, [Hmac_call (concatenatedValues r) secretKey,
                 Console_error ERR_CRYPTO_TIMING_SAFE_EQUAL_LENGTH])
         else (Inr (hex_decode dv = digest), [Hmac_call (concatenatedValues r) secretKey])
     | _ \<Rightarrow> (Inr False, [Hmac_call (concatenatedValues r) secretKey,
                 Console_error ERR_INVALID_ARG_TYPE]))"
proof -
  have cmp: "compare_digests (Str (hex_encode digest)) v =
    (case v of
       Str dv \<Rightarrow>
         if length (hex_decode dv) \<noteq> length digest
         then Inl ERR_CRYPTO_TIMING_SAFE_EQUAL_LENGTH else Inr (hex_decode dv = digest)
     | _ \<Rightarrow> Inl ERR_INVALID_ARG_TYPE)" for v
    by (cases v)
      (auto simp: compare_digests_def Buffer_from_hex_def hex_decode_encode timingSafeEqual_def)
  have body: "verifyResponse_try gen (RObject r) (Str secretKey) =
    (compare_digests (Str (hex_encode digest)) (property r ''DV''),
     [Hmac_call (concatenatedValues r) secretKey])"
    unfolding verifyResponse_complete [OF assms(1-3)] assms(4)
    using assms(5) by (simp add: hex_encode_eq_Nil)
  show ?thesis
    unfolding verifyResponse_def body cmp
    by (cases "property r ''DV''") simp_all
qed

lemma verifyResponse_digest_present:
  assumes "r ''RC'' = Some (Str RESPONSE_CODE_SUCCESSFUL)" and "set order \<subseteq> dom r"
    and "r ''DV'' = Some (Str dv)" and "secretKey \<noteq> []"
    and "gen (concatenatedValues r) secretKey = Inr (Str (hex_encode digest))"
    and "length digest = 64"
  shows "verifyResponse gen (RObject r) (Str secretKey) =
    (if length (hex_decode dv) \<noteq> 64
     then (Inr False, [Hmac_call (concatenatedValues r) secretKey,
             Console_error ERR_CRYPTO_TIMING_SAFE_EQUAL_LENGTH])
     else (Inr (hex_decode dv = digest), [Hmac_call (concatenatedValues r) secretKey]))"
proof -
  have rc: "property r ''RC'' = Str RESPONSE_CODE_SUCCESSFUL"
    using assms(1) by (simp add: property_def)
  have dv: "property r ''DV'' = Str dv"
    using assms(3) by (simp add: property_def)
  have ne: "digest \<noteq> []"
    using assms(6) by auto
  show ?thesis
    by (simp only: verifyResponse_digest
          [where gen = gen and r = r, OF assms(4) rc present_no_missingFields [OF assms(2)]
            assms(5) ne]
          dv jsval.case assms(6))
qed

text \<open>The nine values as strings, and the completeness check on them.\<close>

lemma concatenatedValues_strings:
  assumes "r ''PRN'' = Some (Str prn)" "r ''PID'' = Some (Str pid)" "r ''PS'' = Some (Str ps)"
    "r ''RC'' = Some (Str rc)" "r ''UID'' = Some (Str uid)" "r ''BC'' = Some (Str bc)"
    "r ''INI'' = Some (Str ini)" "r ''P_AMT'' = Some (Str p_amt)" "r ''R_AMT'' = Some (Str r_amt)"
  shows "concatenatedValues r =
    prn @ '','' @ pid @ '','' @ ps @ '','' @ rc @ '','' @ uid @ '','' @ bc @ '','' @ ini @
    '','' @ p_amt @ '','' @ r_amt"
  using assms by (simp add: concatenatedValues_def order_def property_def)

lemma strings_present:
  assumes "r ''PRN'' = Some (Str prn)" "r ''PID'' = Some (Str pid)" "r ''PS'' = Some (Str ps)"
    "r ''RC'' = Some (Str rc)" "r ''UID'' = Some (Str uid)" "r ''BC'' = Some (Str bc)"
    "r ''INI'' = Some (Str ini)" "r ''P_AMT'' = Some (Str p_amt)" "r ''R_AMT'' = Some (Str r_amt)"
  shows "set order \<subseteq> dom r"
  using assms by (simp add: order_def dom_def)

text \<open>The \<^verbatim>\<open>DV\<close> property is read by the comparison only.\<close>

lemma concatenatedValues_upd_DV: "concatenatedValues (r(''DV'' := v)) = concatenatedValues r"
  by (simp add: concatenatedValues_def order_def property_def)

lemma missingFields_upd_DV:
  "filter (\<lambda>field. (r(''DV'' := v)) field = None) order = filter (\<lambda>field. r field = None) order"
  by (rule filter_cong) (auto simp: order_def)

lemma verifyResponse_try_DV_cong:
  assumes "Buffer_from_hex v = Buffer_from_hex v'"
  shows "verifyResponse_try gen (RObject (r(''DV'' \<mapsto> v))) secretKey =
    verifyResponse_try gen (RObject (r(''DV'' \<mapsto> v'))) secretKey"
proof (cases secretKey)
  case (Str key)
  have dv: "property (r(''DV'' \<mapsto> v)) ''DV'' = v" "property (r(''DV'' \<mapsto> v')) ''DV'' = v'"
    by (simp_all add: property_def)
  have cmp: "compare_digests h v = compare_digests h v'" for h
    unfolding compare_digests_def assms by (rule refl)
  have rc: "property (r(''DV'' \<mapsto> w)) ''RC'' = property r ''RC''" for w
    by (simp add: property_def)
  show ?thesis
    unfolding Str verifyResponse_try.simps
    by (simp only: missingFields_upd_DV concatenatedValues_upd_DV dv rc cmp)
qed simp_all

section \<open>The example, evaluated\<close>

lemmas example_defs =
  verifyResponse_def generateHmacSha512_def example_hmac_def example_fields_def
  example_message_def example_DV_def order_def concatenatedValues_def property_def
  RESPONSE_CODE_SUCCESSFUL_def compare_digests_def Buffer_from_hex_def timingSafeEqual_def
  unhex_def hex_digit_def Let_def

lemma example_fields_values:
  "(example_fields(''DV'' \<mapsto> dv)) ''PRN'' = Some (Str ''ORDER1'')"
  "(example_fields(''DV'' \<mapsto> dv)) ''PID'' = Some (Str ''M001'')"
  "(example_fields(''DV'' \<mapsto> dv)) ''PS'' = Some (Str ''success'')"
  "(example_fields(''DV'' \<mapsto> dv)) ''RC'' = Some (Str ''successful'')"
  "(example_fields(''DV'' \<mapsto> dv)) ''UID'' = Some (Str ''T123'')"
  "(example_fields(''DV'' \<mapsto> dv)) ''BC'' = Some (Str ''B01'')"
  "(example_fields(''DV'' \<mapsto> dv)) ''INI'' = Some (Str ''C'')"
  "(example_fields(''DV'' \<mapsto> dv)) ''P_AMT'' = Some (Str ''100.00'')"
  "(example_fields(''DV'' \<mapsto> dv)) ''R_AMT'' = Some (Str ''0.00'')"
  by (simp_all add: example_fields_def)

lemma example_DV_value: "(example_fields(''DV'' \<mapsto> dv)) ''DV'' = Some dv"
  by simp

lemma example_present: "set order \<subseteq> dom (example_fields(''DV'' \<mapsto> dv))"
  by (simp add: order_def example_fields_def)

lemma example_present_no_DV: "set order \<subseteq> dom example_fields"
  by (simp add: order_def example_fields_def)

lemma example_RC:
  "(example_fields(''DV'' \<mapsto> dv)) ''RC'' = Some (Str RESPONSE_CODE_SUCCESSFUL)"
  "example_fields ''RC'' = Some (Str RESPONSE_CODE_SUCCESSFUL)"
  by (simp_all add: example_fields_def RESPONSE_CODE_SUCCESSFUL_def)

lemma example_concatenatedValues:
  "concatenatedValues (example_fields(''DV'' \<mapsto> dv)) = example_message"
  "concatenatedValues example_fields = example_message"
  by (simp_all add: concatenatedValues_def order_def property_def example_fields_def
      example_message_def)


lemma example_key: "''s3cr3t'' \<noteq> []"
  by simp

lemma example_hmac_length: "length (example_hmac key data) = 64"
  by (simp add: example_hmac_def)

lemma example_helper:
  "generateHmacSha512 example_hmac data key = Inr (Str (hex_encode (example_hmac key data)))"
  by (simp add: generateHmacSha512_def)

lemma example_helper_hex:
  "generateHmacSha512 example_hmac example_message ''s3cr3t'' = Inr (Str example_DV)"
  by code_simp


lemma example_run:
  "verifyResponse (generateHmacSha512 example_hmac)
     (RObject (example_fields(''DV'' \<mapsto> Str example_DV))) (Str ''s3cr3t'') =
   (Inr True, [Hmac_call example_message ''s3cr3t''])"
  by (simp add: example_defs)

lemma example_case_variant: "case_variant example_DV example_DV_upper"
  unfolding example_DV_def example_DV_upper_def by code_simp

section \<open>Properties of verifyResponse\<close>

subsection \<open>Missing inputs\<close>

text \<open>
  C6: for a \<^verbatim>\<open>null\<close> or \<^verbatim>\<open>undefined\<close> response (with any key), and for the empty string as
  secret key (with any response), \<open>verifyResponse\<close> returns \<^verbatim>\<open>false\<close> and throws nothing to
  the caller, whatever the keyed-hash helper does.
\<close>

theorem verifyResponse_required_inputs:
  "fst (verifyResponse gen RNull secretKey) = Inr False \<and>
   fst (verifyResponse gen RUndefined secretKey) = Inr False \<and>
   fst (verifyResponse gen response (Str [])) = Inr False"
  by (simp add: verifyResponse_falsy_key verifyResponse_no_response)

theorem verifyResponse_required_inputs_witness:
  "fst (verifyResponse (generateHmacSha512 example_hmac) RNull (Str ''s3cr3t'')) = Inr False \<and>
   fst (verifyResponse (generateHmacSha512 example_hmac) RUndefined (Str ''s3cr3t'')) = Inr False \<and>
   fst (verifyResponse (generateHmacSha512 example_hmac)
          (RObject (example_fields(''DV'' \<mapsto> Str example_DV))) (Str [])) = Inr False"
  using verifyResponse_required_inputs
    [of "generateHmacSha512 example_hmac" "Str ''s3cr3t''"
        "RObject (example_fields(''DV'' \<mapsto> Str example_DV))"]
  by simp

subsection \<open>Totality\<close>

text \<open>
  C2: for every response (\<^verbatim>\<open>null\<close>, \<^verbatim>\<open>undefined\<close>, or an object with any fields missing or
  malformed), every secret key and every behaviour of the keyed-hash helper,
  \<open>verifyResponse\<close> returns a boolean and no error reaches the caller; whenever the body
  of the \<^verbatim>\<open>try\<close> block throws, the error is logged and the function returns \<^verbatim>\<open>false\<close>.
\<close>

theorem verifyResponse_never_throws:
  "(\<exists>b. fst (verifyResponse gen response secretKey) = Inr b) \<and>
   (\<forall>e. fst (verifyResponse_try gen response secretKey) = Inl e \<longrightarrow>
      verifyResponse gen response secretKey =
        (Inr False, snd (verifyResponse_try gen response secretKey) @ [Console_error e]))"
  by (cases "verifyResponse_try gen response secretKey")
     (auto simp: verifyResponse_def split: sum.splits)

theorem verifyResponse_never_throws_witness:
  "fst (verifyResponse_try (\<lambda>data key. Inl ERR_INVALID_ARG_TYPE)
          (RObject example_fields) (Str ''s3cr3t'')) = Inl ERR_INVALID_ARG_TYPE \<and>
   verifyResponse (\<lambda>data key. Inl ERR_INVALID_ARG_TYPE) (RObject example_fields) (Str ''s3cr3t'') =
     (Inr False, [Hmac_call example_message ''s3cr3t'', Console_error ERR_INVALID_ARG_TYPE])"
  using verifyResponse_never_throws
    [of "\<lambda>data key. Inl ERR_INVALID_ARG_TYPE" "RObject example_fields" "Str ''s3cr3t''"]
  by (simp add: example_defs)

subsection \<open>The status gate\<close>

text \<open>
  C3: for every response object whose \<^verbatim>\<open>RC\<close> is not exactly the success sentinel (absent,
  not a string, or a different string, compared case-sensitively), \<open>verifyResponse\<close>
  returns \<^verbatim>\<open>false\<close> and the keyed-hash helper is never called; with a usable key the only
  event is the informational log entry. The result does not depend on \<^verbatim>\<open>DV\<close>, the key,
  the other fields or the helper: a second run that agrees on \<^verbatim>\<open>RC\<close> only returns the
  same \<^verbatim>\<open>false\<close>.
\<close>

theorem verifyResponse_status_gate:
  assumes "property r ''RC'' \<noteq> Str RESPONSE_CODE_SUCCESSFUL"
    and "property r' ''RC'' = property r ''RC''"
  shows "fst (verifyResponse gen (RObject r) secretKey) = Inr False \<and>
    hmac_calls (snd (verifyResponse gen (RObject r) secretKey)) = [] \<and>
    (truthy secretKey \<longrightarrow>
       snd (verifyResponse gen (RObject r) secretKey) =
         [Console_info (''Payment verification failed: Response code was '' @
            to_string (property r ''RC''))]) \<and>
    fst (verifyResponse gen' (RObject r') secretKey') =
      fst (verifyResponse gen (RObject r) secretKey)"
proof -
  have "truthy secretKey \<longrightarrow>
       snd (verifyResponse gen (RObject r) secretKey) =
         [Console_info (''Payment verification failed: Response code was '' @
            to_string (property r ''RC''))]"
    using assms(1) by (cases secretKey) (simp_all add: verifyResponse_not_successful_info)
  then show ?thesis
    using assms verifyResponse_not_successful [of r gen secretKey]
      verifyResponse_not_successful [of r' gen' secretKey']
    by simp
qed

theorem verifyResponse_status_gate_witness:
  "property (example_fields(''RC'' \<mapsto> Str ''Successful'', ''DV'' \<mapsto> Str example_DV)) ''RC''
     \<noteq> Str RESPONSE_CODE_SUCCESSFUL \<and>
   fst (verifyResponse (generateHmacSha512 example_hmac)
     (RObject (example_fields(''RC'' \<mapsto> Str ''Successful'', ''DV'' \<mapsto> Str example_DV)))
     (Str ''s3cr3t'')) = Inr False \<and>
   snd (verifyResponse (generateHmacSha512 example_hmac)
     (RObject (example_fields(''RC'' \<mapsto> Str ''Successful'', ''DV'' \<mapsto> Str example_DV)))
     (Str ''s3cr3t'')) =
     [Console_info ''Payment verification failed: Response code was Successful''] \<and>
   fst (verifyResponse (\<lambda>data key. Inl ERR_INVALID_ARG_TYPE)
     (RObject [''RC'' \<mapsto> Str ''Successful'']) Undefined) = Inr False"
  using verifyResponse_status_gate
    [of "example_fields(''RC'' \<mapsto> Str ''Successful'', ''DV'' \<mapsto> Str example_DV)"
        "[''RC'' \<mapsto> Str ''Successful'']"
        "generateHmacSha512 example_hmac" "Str ''s3cr3t''"
        "\<lambda>data key. Inl ERR_INVALID_ARG_TYPE" Undefined]
  by (simp add: property_def RESPONSE_CODE_SUCCESSFUL_def)

subsection \<open>Field completeness\<close>

text \<open>
  C4: for every response object in which one of the nine fields \<^verbatim>\<open>PRN\<close>, \<^verbatim>\<open>PID\<close>, \<^verbatim>\<open>PS\<close>,
  \<^verbatim>\<open>RC\<close>, \<^verbatim>\<open>UID\<close>, \<^verbatim>\<open>BC\<close>, \<^verbatim>\<open>INI\<close>, \<^verbatim>\<open>P_AMT\<close>, \<^verbatim>\<open>R_AMT\<close> is absent as a key,
  \<open>verifyResponse\<close> returns \<^verbatim>\<open>false\<close>, for every secret key and every helper.
\<close>

theorem verifyResponse_missing_field:
  assumes "field \<in> set order" and "r field = None"
  shows "fst (verifyResponse gen (RObject r) secretKey) = Inr False"
proof (cases "property r ''RC'' = Str RESPONSE_CODE_SUCCESSFUL")
  case False
  then show ?thesis by (simp add: verifyResponse_not_successful)
next
  case True
  from assms have "filter (\<lambda>field. r field = None) order \<noteq> []"
    by (auto simp: filter_empty_conv)
  then show ?thesis by (rule verifyResponse_missing)
qed

theorem verifyResponse_missing_field_witness:
  "''P_AMT'' \<in> set order \<and>
   (example_fields(''P_AMT'' := None, ''DV'' \<mapsto> Str example_DV)) ''P_AMT'' = None \<and>
   fst (verifyResponse (generateHmacSha512 example_hmac)
     (RObject (example_fields(''P_AMT'' := None, ''DV'' \<mapsto> Str example_DV)))
     (Str ''s3cr3t'')) = Inr False"
  using verifyResponse_missing_field
    [of "''P_AMT''" "example_fields(''P_AMT'' := None, ''DV'' \<mapsto> Str example_DV)"
        "generateHmacSha512 example_hmac" "Str ''s3cr3t''"]
  by (simp add: order_def)

subsection \<open>The canonical message\<close>

text \<open>
  C5: the message handed to the keyed hash is exactly the nine field values in the order
  \<^verbatim>\<open>PRN\<close>, \<^verbatim>\<open>PID\<close>, \<^verbatim>\<open>PS\<close>, \<^verbatim>\<open>RC\<close>, \<^verbatim>\<open>UID\<close>, \<^verbatim>\<open>BC\<close>, \<^verbatim>\<open>INI\<close>, \<^verbatim>\<open>P_AMT\<close>, \<^verbatim>\<open>R_AMT\<close>,
  joined by single commas, with nothing escaped or encoded, and the helper is called once,
  with this message and the secret key. For the fields of the specification's example the
  message is \<^verbatim>\<open>ORDER1,M001,success,successful,T123,B01,C,100.00,0.00\<close>.
\<close>

theorem verifyResponse_canonical_message:
  assumes "r ''PRN'' = Some (Str prn)" "r ''PID'' = Some (Str pid)" "r ''PS'' = Some (Str ps)"
    "r ''RC'' = Some (Str rc)" "r ''UID'' = Some (Str uid)" "r ''BC'' = Some (Str bc)"
    "r ''INI'' = Some (Str ini)" "r ''P_AMT'' = Some (Str p_amt)" "r ''R_AMT'' = Some (Str r_amt)"
    and "rc = RESPONSE_CODE_SUCCESSFUL" and "secretKey \<noteq> []"
  shows "hmac_calls (snd (verifyResponse gen (RObject r) (Str secretKey))) =
    [(prn @ '','' @ pid @ '','' @ ps @ '','' @ rc @ '','' @ uid @ '','' @ bc @ '','' @ ini @
      '','' @ p_amt @ '','' @ r_amt, secretKey)]"
proof -
  have rc: "property r ''RC'' = Str RESPONSE_CODE_SUCCESSFUL"
    using assms(4,10) by (simp add: property_def)
  have body: "verifyResponse_try gen (RObject r) (Str secretKey) =
    (case gen (concatenatedValues r) secretKey of
       Inl e \<Rightarrow> Inl e
     | Inr calculatedHash \<Rightarrow>
         if \<not> truthy calculatedHash
         then Inl (Error ''Failed to generate hash for response verification'')
         else compare_digests calculatedHash (property r ''DV''),
     [Hmac_call (concatenatedValues r) secretKey])"
    by (rule verifyResponse_complete
          [OF assms(11) rc present_no_missingFields [OF strings_present [OF assms(1-9)]]])
  have "hmac_calls (snd (verifyResponse gen (RObject r) (Str secretKey))) =
    [(concatenatedValues r, secretKey)]"
    by (simp only: verifyResponse_def body) (simp split: sum.splits)
  then show ?thesis
    by (simp only: concatenatedValues_strings [OF assms(1-9)])
qed

theorem verifyResponse_canonical_message_witness:
  "hmac_calls (snd (verifyResponse (generateHmacSha512 example_hmac)
      (RObject (example_fields(''DV'' \<mapsto> Str example_DV))) (Str ''s3cr3t''))) =
    [(''ORDER1,M001,success,successful,T123,B01,C,100.00,0.00'', ''s3cr3t'')]"
proof -
  have rc: "''successful'' = RESPONSE_CODE_SUCCESSFUL"
    by (simp add: RESPONSE_CODE_SUCCESSFUL_def)
  show ?thesis
    using verifyResponse_canonical_message
      [OF example_fields_values [of "Str example_DV"] rc example_key,
        of "generateHmacSha512 example_hmac"]
    by (simp only: append_Cons append_Nil)
qed

subsection \<open>When the verifier accepts\<close>



subsection \<open>The digest supplied by the gateway\<close>




text \<open>
  C8: for a response with \<^verbatim>\<open>RC\<close> equal to the success sentinel and all nine fields present,
  and a helper that returns the hex of a 64-byte digest, when the bytes decoded from
  \<^verbatim>\<open>DV\<close> are not 64 in number, \<open>verifyResponse\<close> returns \<^verbatim>\<open>false\<close> and throws nothing,
  for every secret key: the length error that the comparison raises is caught and logged.
\<close>

theorem verifyResponse_length_mismatch:
  assumes "r ''RC'' = Some (Str RESPONSE_CODE_SUCCESSFUL)" and "set order \<subseteq> dom r"
    and "r ''DV'' = Some (Str dv)"
    and "\<forall>key. \<exists>digest.
      gen (concatenatedValues r) key = Inr (Str (hex_encode digest)) \<and> length digest = 64"
    and "length (hex_decode dv) \<noteq> 64"
  shows "fst (verifyResponse gen (RObject r) secretKey) = Inr False \<and>
    (\<forall>key. secretKey = Str key \<longrightarrow> key \<noteq> [] \<longrightarrow>
       snd (verifyResponse gen (RObject r) secretKey) =
         [Hmac_call (concatenatedValues r) key,
          Console_error ERR_CRYPTO_TIMING_SAFE_EQUAL_LENGTH])"
proof (cases "truthy secretKey")
  case False
  then show ?thesis
    by (cases secretKey) (simp_all add: verifyResponse_falsy_key)
next
  case True
  then obtain key where key: "secretKey = Str key" "key \<noteq> []"
    by (cases secretKey) simp_all
  from assms(4) obtain digest
    where helper: "gen (concatenatedValues r) key = Inr (Str (hex_encode digest))"
      and len: "length digest = 64"
    by blast
  have "verifyResponse gen (RObject r) (Str key) =
    (Inr False, [Hmac_call (concatenatedValues r) key,
       Console_error ERR_CRYPTO_TIMING_SAFE_EQUAL_LENGTH])"
    by (simp only: verifyResponse_digest_present
          [where gen = gen and r = r, OF assms(1,2,3) key(2) helper len] assms(5)
          simp_thms if_True)
  then show ?thesis
    by (simp add: key)
qed

theorem verifyResponse_length_mismatch_witness:
  "length (hex_decode ''a0cb'') \<noteq> 64 \<and>
   verifyResponse (generateHmacSha512 example_hmac)
     (RObject (example_fields(''DV'' \<mapsto> Str ''a0cb''))) (Str ''s3cr3t'') =
   (Inr False, [Hmac_call example_message ''s3cr3t'',
      Console_error ERR_CRYPTO_TIMING_SAFE_EQUAL_LENGTH])"
proof -
  have helper: "\<forall>key. \<exists>digest.
      generateHmacSha512 example_hmac
        (concatenatedValues (example_fields(''DV'' \<mapsto> Str ''a0cb''))) key =
        Inr (Str (hex_encode digest)) \<and> length digest = 64"
    by (intro allI exI conjI, rule example_helper, rule example_hmac_length)
  have len: "length (hex_decode ''a0cb'') \<noteq> 64"
    by (simp add: unhex_def)
  show ?thesis
    using verifyResponse_length_mismatch
      [where gen = "generateHmacSha512 example_hmac"
         and r = "example_fields(''DV'' \<mapsto> Str ''a0cb'')"
         and secretKey = "Str ''s3cr3t''",
       OF example_RC(1) example_present example_DV_value helper len]
    by (simp only: len example_concatenatedValues prod_eq_iff fst_conv snd_conv simp_thms
          jsval.inject list.distinct char.inject)
qed

text \<open>
  C9: for a response with \<^verbatim>\<open>RC\<close> equal to the success sentinel and all nine fields present
  that has no \<^verbatim>\<open>DV\<close> key, \<open>verifyResponse\<close> returns \<^verbatim>\<open>false\<close> (it neither throws nor
  returns \<^verbatim>\<open>true\<close>), for every key and helper. \<^verbatim>\<open>DV\<close> is not part of the completeness
  check: when the helper returns a non-empty hash, the hash has been computed and the
  failure is the type error of decoding the absent value.
\<close>

theorem verifyResponse_missing_DV:
  assumes "r ''RC'' = Some (Str RESPONSE_CODE_SUCCESSFUL)" and "set order \<subseteq> dom r"
    and "r ''DV'' = None"
  shows "fst (verifyResponse gen (RObject r) secretKey) = Inr False \<and>
    (\<forall>key h. secretKey = Str key \<longrightarrow> key \<noteq> [] \<longrightarrow>
       gen (concatenatedValues r) key = Inr (Str h) \<longrightarrow> h \<noteq> [] \<longrightarrow>
       snd (verifyResponse gen (RObject r) secretKey) =
         [Hmac_call (concatenatedValues r) key, Console_error ERR_INVALID_ARG_TYPE])"
proof (cases "truthy secretKey")
  case False
  then show ?thesis
    by (cases secretKey) (simp_all add: verifyResponse_falsy_key)
next
  case True
  then obtain key where key: "secretKey = Str key" "key \<noteq> []"
    by (cases secretKey) simp_all
  have rc: "property r ''RC'' = Str RESPONSE_CODE_SUCCESSFUL"
    using assms(1) by (simp add: property_def)
  have dv: "property r ''DV'' = Undefined"
    using assms(3) by (simp add: property_def)
  have cmp: "compare_digests h Undefined =
    (case Buffer_from_hex h of Inl e \<Rightarrow> Inl e | Inr b \<Rightarrow> Inl ERR_INVALID_ARG_TYPE)" for h
    by (cases h) (simp_all add: compare_digests_def Buffer_from_hex_def)
  have body: "verifyResponse_try gen (RObject r) (Str key) =
    (case gen (concatenatedValues r) key of
       Inl e \<Rightarrow> Inl e
     | Inr calculatedHash \<Rightarrow>
         if \<not> truthy calculatedHash
         then Inl (Error ''Failed to generate hash for response verification'')
         else (case Buffer_from_hex calculatedHash of
                 Inl e \<Rightarrow> Inl e | Inr b \<Rightarrow> Inl ERR_INVALID_ARG_TYPE),
     [Hmac_call (concatenatedValues r) key])"
    by (simp only: verifyResponse_complete [OF key(2) rc present_no_missingFields [OF assms(2)]]
          dv cmp)
  have "fst (verifyResponse gen (RObject r) (Str key)) = Inr False"
    unfolding verifyResponse_def body by (simp split: sum.splits)
  moreover have "snd (verifyResponse gen (RObject r) (Str key)) =
      [Hmac_call (concatenatedValues r) key, Console_error ERR_INVALID_ARG_TYPE]"
    if "gen (concatenatedValues r) key = Inr (Str h)" "h \<noteq> []" for h
    using that unfolding verifyResponse_def body by (simp add: Buffer_from_hex_def)
  ultimately show ?thesis
    by (simp add: key)
qed

theorem verifyResponse_missing_DV_witness:
  "example_fields ''DV'' = None \<and>
   verifyResponse (generateHmacSha512 example_hmac) (RObject example_fields) (Str ''s3cr3t'') =
   (Inr False, [Hmac_call example_message ''s3cr3t'', Console_error ERR_INVALID_ARG_TYPE])"
proof -
  have dv: "example_fields ''DV'' = None"
    by (simp add: example_fields_def)
  have ne: "example_DV \<noteq> []"
    by (simp add: example_DV_def)
  show ?thesis
    using verifyResponse_missing_DV
      [where gen = "generateHmacSha512 example_hmac" and r = example_fields
         and secretKey = "Str ''s3cr3t''", OF example_RC(2) example_present_no_DV dv]
      example_helper_hex ne
    by (simp add: dv example_concatenatedValues prod_eq_iff)
qed

text \<open>
  C10: the comparison does not depend on the case of the hex digits of \<^verbatim>\<open>DV\<close>: for every
  response, secret key and helper, changing letters of \<^verbatim>\<open>DV\<close> between upper and lower
  case changes neither the result nor the events of \<open>verifyResponse\<close>.
\<close>

theorem verifyResponse_DV_case_insensitive:
  assumes "case_variant dv dv'"
  shows "verifyResponse gen (RObject (r(''DV'' \<mapsto> Str dv'))) secretKey =
    verifyResponse gen (RObject (r(''DV'' \<mapsto> Str dv))) secretKey"
proof -
  have "Buffer_from_hex (Str dv') = Buffer_from_hex (Str dv)"
    using hex_decode_case_variant [OF assms] by (simp add: Buffer_from_hex_def)
  then have "verifyResponse_try gen (RObject (r(''DV'' \<mapsto> Str dv'))) secretKey =
    verifyResponse_try gen (RObject (r(''DV'' \<mapsto> Str dv))) secretKey"
    by (rule verifyResponse_try_DV_cong)
  then show ?thesis
    by (simp only: verifyResponse_def)
qed

theorem verifyResponse_DV_case_insensitive_witness:
  "case_variant example_DV example_DV_upper \<and>
   verifyResponse (generateHmacSha512 example_hmac)
     (RObject (example_fields(''DV'' \<mapsto> Str example_DV_upper))) (Str ''s3cr3t'') =
   (Inr True, [Hmac_call example_message ''s3cr3t''])"
  using verifyResponse_DV_case_insensitive [OF example_case_variant,
      of "generateHmacSha512 example_hmac" example_fields "Str ''s3cr3t''"]
  by (simp only: example_run example_case_variant simp_thms)

end
